theory Spec2Isabelle
  imports Main "HOL-Library.Word" "HOL-Library.Signed_Division"
begin

section \<open>Go library functions used by the adapter\<close>

text \<open>
  Go strings are byte sequences; they are modelled as \<^typ>\<open>string\<close> (a list of 8-bit
  characters). The functions below follow the Go standard library (\<^verbatim>\<open>strings\<close>,
  \<^verbatim>\<open>strconv\<close>, \<^verbatim>\<open>fmt\<close>) on the arguments the adapter passes.
\<close>

definition HasPrefix :: "string \<Rightarrow> string \<Rightarrow> bool" where
  "HasPrefix s p = (take (length p) s = p)"

definition HasSuffix :: "string \<Rightarrow> string \<Rightarrow> bool" where
  "HasSuffix s suf = (length suf \<le> length s \<and> drop (length s - length suf) s = suf)"

definition TrimPrefix :: "string \<Rightarrow> string \<Rightarrow> string" where
  "TrimPrefix s p = (if HasPrefix s p then drop (length p) s else s)"

definition TrimSuffix :: "string \<Rightarrow> string \<Rightarrow> string" where
  "TrimSuffix s suf = (if HasSuffix s suf then take (length s - length suf) s else s)"

text \<open>\<^verbatim>\<open>strings.Trim(s, cutset)\<close>: leading and trailing bytes of the cutset removed
  (the adapter's only cutset is the ASCII double quote).\<close>

definition Trim :: "string \<Rightarrow> string \<Rightarrow> string" where
  "Trim s cutset =
     rev (dropWhile (\<lambda>c. c \<in> set cutset) (rev (dropWhile (\<lambda>c. c \<in> set cutset) s)))"

text \<open>\<^verbatim>\<open>strings.SplitN(s, sep, n)\<close> for a one-byte separator: at most \<open>n\<close> pieces,
  the last one the unsplit remainder; \<open>n = 0\<close> gives no piece at all.\<close>

fun SplitN :: "string \<Rightarrow> char \<Rightarrow> nat \<Rightarrow> string list" where
  "SplitN s c 0 = []"
| "SplitN s c (Suc 0) = [s]"
| "SplitN s c (Suc (Suc n)) =
     (if c \<in> set s
      then takeWhile (\<lambda>x. x \<noteq> c) s # SplitN (tl (dropWhile (\<lambda>x. x \<noteq> c) s)) c (Suc n)
      else [s])"

text \<open>
  \<^verbatim>\<open>strings.Fields\<close> splits around runs of white space as \<^verbatim>\<open>unicode.IsSpace\<close>
  defines it. \<open>spaceWidth s\<close> is the number of bytes of the white-space rune that
  starts \<open>s\<close> in UTF-8, and 0 when \<open>s\<close> does not start with one: the six ASCII
  spaces, U+0085, U+00A0, U+1680, U+2000 to U+200A, U+2028, U+2029, U+202F, U+205F
  and U+3000.
\<close>

definition asciiSpace :: "char \<Rightarrow> bool" where
  "asciiSpace c = (c = CHR 0x09 \<or> c = CHR 0x0A \<or> c = CHR 0x0B \<or> c = CHR 0x0C \<or>
                   c = CHR 0x0D \<or> c = CHR 0x20)"

fun spaceWidth :: "string \<Rightarrow> nat" where
  "spaceWidth [] = 0"
| "spaceWidth (c # cs) =
     (if asciiSpace c then 1
      else if c = CHR 0xC2 \<and> (take 1 cs = [CHR 0x85] \<or> take 1 cs = [CHR 0xA0]) then 2
      else if c = CHR 0xE1 \<and> take 2 cs = [CHR 0x9A, CHR 0x80] then 3
      else if c = CHR 0xE2 \<and> take 1 cs = [CHR 0x80] \<and> length cs \<ge> 2 \<and>
              (let b = of_char (cs ! 1) :: nat
               in (0x80 \<le> b \<and> b \<le> 0x8A) \<or> b = 0xA8 \<or> b = 0xA9 \<or> b = 0xAF) then 3
      else if c = CHR 0xE2 \<and> take 2 cs = [CHR 0x81, CHR 0x9F] then 3
      else if c = CHR 0xE3 \<and> take 2 cs = [CHR 0x80, CHR 0x80] then 3
      else 0)"

function FieldsFrom :: "string \<Rightarrow> string \<Rightarrow> string list" where
  "FieldsFrom cur [] = (if cur = [] then [] else [cur])"
| "FieldsFrom cur (c # cs) =
     (if spaceWidth (c # cs) = 0 then FieldsFrom (cur @ [c]) cs
      else (if cur = [] then [] else [cur]) @ FieldsFrom [] (drop (spaceWidth (c # cs) - 1) cs))"
  by pat_completeness auto
termination
  by (relation "measure (\<lambda>(cur, s). length s)") auto

definition Fields :: "string \<Rightarrow> string list" where
  "Fields s = FieldsFrom [] s"

text \<open>\<^verbatim>\<open>%d\<close> of an unsigned integer: its decimal digits.\<close>

definition digit :: "nat \<Rightarrow> char" where
  "digit n = ''0123456789'' ! n"

function decimal :: "nat \<Rightarrow> string" where
  "decimal n = (if n < 10 then [digit n] else decimal (n div 10) @ [digit (n mod 10)])"
  by pat_completeness auto
termination
  by (relation "measure (\<lambda>n. n)") auto

declare decimal.simps [simp del]

section \<open>Errors\<close>

text \<open>
  Every \<^verbatim>\<open>fmt.Errorf\<close> of the source is one constructor, carrying the values the
  format prints; an error returned by a library call (\<^verbatim>\<open>netip\<close>, \<^verbatim>\<open>net/http\<close>,
  \<^verbatim>\<open>encoding/json\<close>, \<^verbatim>\<open>libdns\<close>) is \<open>LibError\<close> with its message.
\<close>

datatype error =
    LibError string
  | ParseUintSyntax string
  | ParseUintRange string
  | UsernameRequired
  | PasswordRequired
  | ZoneNameRequired
  | RecordRequired
  | InvalidIPAddress string error
  | MalformedCAAValue
  | InvalidFlags string error
  | MalformedSRVValue
  | InvalidWeight string error
  | InvalidPort string error
  | NotEnoughNameFields string
  | CreateRequestFailed error
  | GetZoneFailed string error
  | NoZonesFound string
  | MarshalFailed error
  | UpdateZoneFailed string error
  | ConvertFailed string error
  | AddRecordsFailed string error
  | SetRecordsFailed string error
  | DeleteRecordsFailed string error

text \<open>
  \<^verbatim>\<open>strconv.ParseUint(s, 10, bitSize)\<close> for a bit size of at most 32: the empty
  string is a syntax error; the bytes are read from the left, a byte that is not a
  decimal digit is a syntax error, and a digit that takes the value past
  \<open>2 ^ bitSize - 1\<close> is a range error (with these bit sizes the 64-bit accumulator
  of the library cannot overflow first).
\<close>

definition isDigit :: "char \<Rightarrow> bool" where
  "isDigit c = (48 \<le> (of_char c :: nat) \<and> (of_char c :: nat) \<le> 57)"

fun parseDigits :: "string \<Rightarrow> nat \<Rightarrow> nat \<Rightarrow> string \<Rightarrow> error + nat" where
  "parseDigits s0 maxVal n [] = Inr n"
| "parseDigits s0 maxVal n (c # cs) =
     (if \<not> isDigit c then Inl (ParseUintSyntax s0)
      else if n * 10 + ((of_char c :: nat) - 48) > maxVal then Inl (ParseUintRange s0)
      else parseDigits s0 maxVal (n * 10 + ((of_char c :: nat) - 48)) cs)"

definition ParseUint :: "string \<Rightarrow> nat \<Rightarrow> error + nat" where
  "ParseUint s bitSize =
     (if s = [] then Inl (ParseUintSyntax s) else parseDigits s (2 ^ bitSize - 1) 0 s)"

section \<open>Data model\<close>

text \<open>
  \<^verbatim>\<open>time.Duration\<close> is a signed 64-bit count of nanoseconds. \<^verbatim>\<open>netip.Addr\<close> is the
  zero address, an IPv4 address, or an IPv6 address with its zone; \<^verbatim>\<open>Is6\<close> holds of
  the last (IPv4-mapped IPv6 addresses included).
\<close>

type_synonym Duration = "64 word"

definition Second :: Duration where
  "Second = 1000000000"

text \<open>\<^verbatim>\<open>int64(d / time.Second)\<close>: Go's division truncates towards zero.\<close>

definition seconds_of :: "Duration \<Rightarrow> 64 word" where
  "seconds_of d = word_of_int (sint d sdiv sint Second)"

datatype Addr = ZeroAddr | IPv4 "32 word" | IPv6 "128 word" string

fun Is6 :: "Addr \<Rightarrow> bool" where
  "Is6 (IPv6 a z) = True"
| "Is6 _ = False"

text \<open>
  The generic records of \<^verbatim>\<open>libdns\<close> (the field \<^verbatim>\<open>ProviderData\<close>, which the adapter
  never reads or sets, is left out). The fields are, in this order:
  \<^item> \<open>Address\<close>: Name, TTL, IP;
  \<^item> \<open>CAA\<close>: Name, TTL, Flags, Tag, Value;
  \<^item> \<open>CNAME\<close>, \<open>NS\<close>: Name, TTL, Target;
  \<^item> \<open>MX\<close>: Name, TTL, Preference, Target;
  \<^item> \<open>SRV\<close>: Service, Transport, Name, TTL, Priority, Weight, Port, Target;
  \<^item> \<open>TXT\<close>: Name, TTL, Text;
  \<^item> \<open>ServiceBinding\<close>: Name, TTL, Scheme, URLSchemePort, Priority, Target, Params;
  \<^item> \<open>RR\<close>: Name, TTL, Type, Data;
  \<^item> \<open>OtherRecord\<close>: a value of any other type that implements the
    \<^verbatim>\<open>libdns.Record\<close> interface, by the name of its type.
\<close>

datatype Record =
    Address string Duration Addr
  | CAA string Duration "8 word" string string
  | CNAME string Duration string
  | MX string Duration "16 word" string
  | NS string Duration string
  | SRV string string string Duration "16 word" "16 word" "16 word" string
  | TXT string Duration string
  | ServiceBinding string Duration string "16 word" "16 word" string "(string \<times> string list) list"
  | RR string Duration string string
  | OtherRecord string

record ResourceRecord =
  Name :: string
  TTL :: "64 word"
  Type :: string
  Value :: string
  Pref :: "32 word"
  Raw :: string

datatype SOA = SOAData "64 word" "64 word" "64 word" "64 word" string

datatype NameServer = NameServerData string "64 word" "string list"

text \<open>\<open>AutoDNSTime\<close> wraps \<^verbatim>\<open>time.Time\<close>: here the nanoseconds since the zero time, so
  that the zero value \<^verbatim>\<open>AutoDNSTime{}\<close> is 0.\<close>

type_synonym AutoDNSTime = int

record Zone =
  Created :: AutoDNSTime
  Updated :: AutoDNSTime
  Origin :: string
  SOA :: "SOA option"
  NameServers :: "NameServer list"
  WWWInclude :: bool
  VirtualNameServer :: string
  Action :: string
  ResourceRecords :: "ResourceRecord list"
  ROID :: "32 word"

text \<open>
  A request as \<open>sendAPIRequest\<close> sends it: the method, the URL, the credentials of the
  \<^verbatim>\<open>Authorization\<close> header, the \<^verbatim>\<open>X-Domainrobot-Context\<close> header and the JSON body
  (the zone document of a PUT).
\<close>

datatype request = Request string string string string string "Zone option"

fun isPUT :: "request \<Rightarrow> bool" where
  "isPUT (Request m u usr pw c b) = (m = ''PUT'')"

text \<open>
  What the adapter calls outside the repository, as parameters of the model:
  \<^item> \<open>AbsoluteName\<close>, \<open>RelativeName\<close>: \<^verbatim>\<open>libdns.AbsoluteName\<close>, \<^verbatim>\<open>libdns.RelativeName\<close>;
  \<^item> \<open>ParseAddr\<close>, \<open>AddrString\<close>: \<^verbatim>\<open>netip.ParseAddr\<close> and \<^verbatim>\<open>netip.Addr.String\<close>;
  \<^item> \<open>RRParse\<close>: \<^verbatim>\<open>libdns.RR.Parse\<close>;
  \<^item> \<open>NewRequest\<close>: the error of \<^verbatim>\<open>http.NewRequestWithContext\<close>, if any, for a method
    and a URL;
  \<^item> \<open>Marshal\<close>: the error of \<^verbatim>\<open>json.Marshal\<close>, if any, for a zone document;
  \<^item> \<open>send\<close>: the outcome of \<open>sendAPIRequest\<close> (the HTTP exchange and the decoding of
    the response) for a request, given the requests sent before it: an error, or the
    zone documents decoded from the response's data.
\<close>

record env =
  AbsoluteName :: "string \<Rightarrow> string \<Rightarrow> string"
  RelativeName :: "string \<Rightarrow> string \<Rightarrow> string"
  ParseAddr :: "string \<Rightarrow> error + Addr"
  AddrString :: "Addr \<Rightarrow> string"
  RRParse :: "Record \<Rightarrow> error + Record"
  NewRequest :: "string \<Rightarrow> string \<Rightarrow> error option"
  Marshal :: "Zone \<Rightarrow> error option"
  send :: "request list \<Rightarrow> request \<Rightarrow> error + Zone list"

section \<open>Record codec (models.go)\<close>

text \<open>\<open>libdnsRecord\<close>: a provider row to a generic record, for a zone.\<close>

definition libdnsRecord :: "env \<Rightarrow> ResourceRecord \<Rightarrow> string \<Rightarrow> error + Record" where
  "libdnsRecord e r zone =
     (let name = RelativeName e (Name r) zone;
          ttl = TTL r * Second
      in if Type r = ''A'' \<or> Type r = ''AAAA'' then
           (case ParseAddr e (Value r) of
              Inl err \<Rightarrow> Inl (InvalidIPAddress (Value r) err)
            | Inr addr \<Rightarrow> Inr (Address name ttl addr))
         else if Type r = ''CAA'' then
           (let fields = Fields (Value r)
            in if length fields \<noteq> 3 then Inl MalformedCAAValue
               else (case ParseUint (fields ! 0) 8 of
                       Inl err \<Rightarrow> Inl (InvalidFlags (fields ! 0) err)
                     | Inr flags \<Rightarrow>
                         Inr (CAA name ttl (of_nat flags) (fields ! 1)
                                (Trim (fields ! 2) [CHR 0x22]))))
         else if Type r = ''CNAME'' then Inr (CNAME name ttl (Value r))
         else if Type r = ''MX'' then Inr (MX name ttl (ucast (Pref r)) (Value r))
         else if Type r = ''NS'' then Inr (NS name ttl (Value r))
         else if Type r = ''SRV'' then
           (let fields = Fields (Value r)
            in if length fields \<noteq> 3 then Inl MalformedSRVValue
               else (case ParseUint (fields ! 0) 16 of
                       Inl err \<Rightarrow> Inl (InvalidWeight (fields ! 0) err)
                     | Inr weight \<Rightarrow>
                         (case ParseUint (fields ! 1) 16 of
                            Inl err \<Rightarrow> Inl (InvalidPort (fields ! 1) err)
                          | Inr port \<Rightarrow>
                              (let target = fields ! 2;
                                   parts = SplitN (Name r) CHR ''.'' 3
                               in if length parts < 2 then Inl (NotEnoughNameFields (Name r))
                                  else (let name = (if length parts = 3 then parts ! 2 else ''@'')
                                        in Inr (SRV (TrimPrefix (parts ! 0) ''_'')
                                                    (TrimPrefix (parts ! 1) ''_'')
                                                    name (TTL r * Second) (ucast (Pref r))
                                                    (of_nat weight) (of_nat port) target))))))
         else if Type r = ''TXT'' then Inr (TXT name ttl (Value r))
         else RRParse e (RR name ttl (Type r) (Value r)))"

text \<open>\<open>libdnsRecordToResourceRecord\<close>: a generic record to a provider row, for a zone.
  A field the source's struct literal leaves out has Go's zero value.\<close>

fun libdnsRecordToResourceRecord :: "env \<Rightarrow> Record \<Rightarrow> string \<Rightarrow> ResourceRecord" where
  "libdnsRecordToResourceRecord e (Address name ttl ip) zone =
     \<lparr>Name = AbsoluteName e name zone, TTL = seconds_of ttl, Type = ''A'',
      Value = AddrString e ip, Pref = 0, Raw = ''''\<rparr>"
| "libdnsRecordToResourceRecord e (CAA name ttl flags tag val) zone =
     \<lparr>Name = AbsoluteName e name zone, TTL = seconds_of ttl, Type = ''CAA'',
      Value = decimal (unat flags) @ '' '' @ tag @ '' '' @ [CHR 0x22] @ val @ [CHR 0x22],
      Pref = 0, Raw = ''''\<rparr>"
| "libdnsRecordToResourceRecord e (CNAME name ttl target) zone =
     \<lparr>Name = AbsoluteName e name zone, TTL = seconds_of ttl, Type = ''CNAME'',
      Value = target, Pref = 0, Raw = ''''\<rparr>"
| "libdnsRecordToResourceRecord e (MX name ttl preference target) zone =
     \<lparr>Name = AbsoluteName e name zone, TTL = seconds_of ttl, Type = ''MX'',
      Value = target, Pref = ucast preference, Raw = ''''\<rparr>"
| "libdnsRecordToResourceRecord e (NS name ttl target) zone =
     \<lparr>Name = AbsoluteName e name zone, TTL = seconds_of ttl, Type = ''NS'',
      Value = target, Pref = 0, Raw = ''''\<rparr>"
| "libdnsRecordToResourceRecord e (SRV service transport name ttl priority weight port target) zone =
     \<lparr>Name = ''_'' @ service @ ''._'' @ transport @ ''.'' @ AbsoluteName e name zone,
      TTL = seconds_of ttl, Type = ''SRV'',
      Value = decimal (unat weight) @ '' '' @ decimal (unat port) @ '' '' @ target,
      Pref = ucast priority, Raw = ''''\<rparr>"
| "libdnsRecordToResourceRecord e (TXT name ttl txt) zone =
     \<lparr>Name = AbsoluteName e name zone, TTL = seconds_of ttl, Type = ''TXT'',
      Value = txt, Pref = 0, Raw = ''''\<rparr>"
| "libdnsRecordToResourceRecord e (ServiceBinding name ttl scheme sport priority target params) zone =
     \<lparr>Name = ''unknown'', TTL = 0, Type = ''UNKNOWN'', Value = ''unknown'', Pref = 0, Raw = ''''\<rparr>"
| "libdnsRecordToResourceRecord e (RR name ttl ty data) zone =
     \<lparr>Name = ''unknown'', TTL = 0, Type = ''UNKNOWN'', Value = ''unknown'', Pref = 0, Raw = ''''\<rparr>"
| "libdnsRecordToResourceRecord e (OtherRecord tyname) zone =
     \<lparr>Name = ''unknown'', TTL = 0, Type = ''UNKNOWN'', Value = ''unknown'', Pref = 0, Raw = ''''\<rparr>"

section \<open>Provider and zone cache (provider.go)\<close>

text \<open>
  The provider's fields; \<open>zones\<close> is the cache of zone documents by zone name (Go's nil
  map and empty map are both the empty map here). \<open>zonesMutex\<close> is left out: the model
  runs one operation at a time.
\<close>

record Provider =
  Username :: string
  Password :: string
  Context :: string
  Endpoint :: string
  zones :: "string \<Rightarrow> Zone option"
  initialized :: bool

text \<open>The provider together with the requests sent to the API so far, oldest first.\<close>

record world =
  prov :: Provider
  sent :: "request list"

definition defaultEndpoint :: string where
  "defaultEndpoint = ''https://api.autodns.com/v1''"

definition defaultContext :: string where
  "defaultContext = ''4''"

definition ensureInitialized :: "Provider \<Rightarrow> error option \<times> Provider" where
  "ensureInitialized p =
     (if initialized p then (None, p)
      else let p1 = (if Endpoint p = [] then p\<lparr>Endpoint := defaultEndpoint\<rparr> else p);
               p2 = (if Context p1 = [] then p1\<lparr>Context := defaultContext\<rparr> else p1)
           in if Username p2 = [] then (Some UsernameRequired, p2)
              else if Password p2 = [] then (Some PasswordRequired, p2)
              else (None, p2\<lparr>initialized := True\<rparr>))"

section \<open>Zone operations (client.go)\<close>

definition mkRequest :: "Provider \<Rightarrow> string \<Rightarrow> string \<Rightarrow> Zone option \<Rightarrow> request" where
  "mkRequest p m u b = Request m u (Username p) (Password p) (Context p) b"

definition zoneURL :: "Provider \<Rightarrow> string \<Rightarrow> string" where
  "zoneURL p zoneName = Endpoint p @ ''/zone/'' @ zoneName"

definition getZone :: "env \<Rightarrow> string \<Rightarrow> world \<Rightarrow> (error + Zone) \<times> world" where
  "getZone e zoneName w =
     (case zones (prov w) zoneName of
        Some zone \<Rightarrow> (Inr zone, w)
      | None \<Rightarrow>
          (case NewRequest e ''GET'' (zoneURL (prov w) zoneName) of
             Some err \<Rightarrow> (Inl (CreateRequestFailed err), w)
           | None \<Rightarrow>
               (let req = mkRequest (prov w) ''GET'' (zoneURL (prov w) zoneName) None;
                    w1 = w\<lparr>sent := sent w @ [req]\<rparr>
                in case send e (sent w) req of
                     Inl err \<Rightarrow> (Inl (GetZoneFailed zoneName err), w1)
                   | Inr zs \<Rightarrow>
                       (if length zs > 0
                        then (Inr (hd zs),
                              w1\<lparr>prov := (prov w1)\<lparr>zones := (zones (prov w1))(zoneName \<mapsto> hd zs)\<rparr>\<rparr>)
                        else (Inl (NoZonesFound zoneName), w1)))))"

definition cleanZone :: "Zone \<Rightarrow> Zone" where
  "cleanZone zoneData =
     \<lparr>Created = 0, Updated = 0, Origin = Origin zoneData, SOA = SOA zoneData,
      NameServers = NameServers zoneData, WWWInclude = WWWInclude zoneData,
      VirtualNameServer = VirtualNameServer zoneData, Action = Action zoneData,
      ResourceRecords = ResourceRecords zoneData, ROID = ROID zoneData\<rparr>"

definition setZone :: "env \<Rightarrow> string \<Rightarrow> Zone \<Rightarrow> world \<Rightarrow> error option \<times> world" where
  "setZone e zoneName zoneData w =
     (case Marshal e (cleanZone zoneData) of
        Some err \<Rightarrow> (Some (MarshalFailed err), w)
      | None \<Rightarrow>
          (case NewRequest e ''PUT'' (zoneURL (prov w) zoneName) of
             Some err \<Rightarrow> (Some (CreateRequestFailed err), w)
           | None \<Rightarrow>
               (let req = mkRequest (prov w) ''PUT'' (zoneURL (prov w) zoneName)
                            (Some (cleanZone zoneData));
                    w1 = w\<lparr>sent := sent w @ [req]\<rparr>
                in case send e (sent w) req of
                     Inl err \<Rightarrow> (Some (UpdateZoneFailed zoneName err), w1)
                   | Inr zs \<Rightarrow>
                       (None, w1\<lparr>prov := (prov w1)\<lparr>zones := (zones (prov w1))(zoneName := None)\<rparr>\<rparr>))))"

text \<open>A Go \<^verbatim>\<open>map[string]bool\<close>: a missing key reads as \<^verbatim>\<open>false\<close>.\<close>

definition lookupBool :: "(string \<Rightarrow> bool option) \<Rightarrow> string \<Rightarrow> bool" where
  "lookupBool m k = (case m k of None \<Rightarrow> False | Some b \<Rightarrow> b)"

text \<open>The loops \<^verbatim>\<open>for _, record := range records { ...; newRecords = append(newRecords, rr) }\<close>.\<close>

definition convertRecords :: "env \<Rightarrow> string \<Rightarrow> Record list \<Rightarrow> ResourceRecord list" where
  "convertRecords e zoneName records =
     fold (\<lambda>record newRecords. newRecords @ [libdnsRecordToResourceRecord e record zoneName])
       records []"

definition addRecords :: "env \<Rightarrow> string \<Rightarrow> Record list \<Rightarrow> world \<Rightarrow> error option \<times> world" where
  "addRecords e zoneName records w =
     (case getZone e zoneName w of
        (Inl err, w1) \<Rightarrow> (Some (GetZoneFailed zoneName err), w1)
      | (Inr zoneData, w1) \<Rightarrow>
          (let newRecords = convertRecords e zoneName records
           in setZone e zoneName
                (zoneData\<lparr>ResourceRecords := ResourceRecords zoneData @ newRecords\<rparr>) w1))"

definition replaceKeys :: "string \<Rightarrow> ResourceRecord list \<Rightarrow> (string \<Rightarrow> bool option)" where
  "replaceKeys zoneName newRecords =
     fold (\<lambda>rr m.
             (let key = Type rr @ '':'' @ Name rr;
                  m1 = m(key \<mapsto> True);
                  shortName = TrimSuffix (Name rr) (''.'' @ zoneName);
                  shortKey = Type rr @ '':'' @ shortName
              in m1(shortKey \<mapsto> True)))
       newRecords Map.empty"

definition setRecords :: "env \<Rightarrow> string \<Rightarrow> Record list \<Rightarrow> world \<Rightarrow> error option \<times> world" where
  "setRecords e zoneName records w =
     (case getZone e zoneName w of
        (Inl err, w1) \<Rightarrow> (Some (GetZoneFailed zoneName err), w1)
      | (Inr zoneData, w1) \<Rightarrow>
          (let newRecords = convertRecords e zoneName records;
               recordsToReplace = replaceKeys zoneName newRecords;
               preservedRecords =
                 fold (\<lambda>rr preserved.
                         if \<not> lookupBool recordsToReplace (Type rr @ '':'' @ Name rr)
                         then preserved @ [rr] else preserved)
                   (ResourceRecords zoneData) []
           in setZone e zoneName
                (zoneData\<lparr>ResourceRecords := preservedRecords @ newRecords\<rparr>) w1))"

definition deleteKeys :: "env \<Rightarrow> string \<Rightarrow> Record list \<Rightarrow> (string \<Rightarrow> bool option)" where
  "deleteKeys e zoneName records =
     (let m1 = fold (\<lambda>record m.
                       (let rr = libdnsRecordToResourceRecord e record zoneName;
                            key = Type rr @ '':'' @ Name rr @ '':'' @ Value rr
                        in m(key \<mapsto> True)))
                 records Map.empty
      in fold (\<lambda>record m.
                 (let rr = libdnsRecordToResourceRecord e record zoneName;
                      shortName = TrimSuffix (Name rr) (''.'' @ zoneName);
                      key = Type rr @ '':'' @ shortName @ '':'' @ Value rr
                  in m(key \<mapsto> True)))
           records m1)"

definition deleteRecords :: "env \<Rightarrow> string \<Rightarrow> Record list \<Rightarrow> world \<Rightarrow> error option \<times> world" where
  "deleteRecords e zoneName records w =
     (case getZone e zoneName w of
        (Inl err, w1) \<Rightarrow> (Some (GetZoneFailed zoneName err), w1)
      | (Inr zoneData, w1) \<Rightarrow>
          (let recordsToDelete = deleteKeys e zoneName records;
               remainingRecords =
                 fold (\<lambda>rr remaining.
                         if \<not> lookupBool recordsToDelete
                                  (Type rr @ '':'' @ Name rr @ '':'' @ Value rr)
                         then remaining @ [rr] else remaining)
                   (ResourceRecords zoneData) []
           in setZone e zoneName (zoneData\<lparr>ResourceRecords := remainingRecords\<rparr>) w1))"

section \<open>The four public operations (provider.go)\<close>

text \<open>The loop of \<open>GetRecords\<close>: rows are decoded in order, and the first row that fails
  to decode ends the loop with its error.\<close>

fun decodeRows :: "env \<Rightarrow> string \<Rightarrow> ResourceRecord list \<Rightarrow> Record list \<Rightarrow> error + Record list" where
  "decodeRows e zone [] records = Inr records"
| "decodeRows e zone (rr # rrs) records =
     (case libdnsRecord e rr zone of
        Inl err \<Rightarrow> Inl (ConvertFailed (Name rr) err)
      | Inr record \<Rightarrow> decodeRows e zone rrs (records @ [record]))"

definition GetRecords :: "env \<Rightarrow> string \<Rightarrow> world \<Rightarrow> (error + Record list) \<times> world" where
  "GetRecords e zone w =
     (case ensureInitialized (prov w) of
        (Some err, p1) \<Rightarrow> (Inl err, w\<lparr>prov := p1\<rparr>)
      | (None, p1) \<Rightarrow>
          (if zone = [] then (Inl ZoneNameRequired, w\<lparr>prov := p1\<rparr>)
           else (case getZone e zone (w\<lparr>prov := p1\<rparr>) of
                   (Inl err, w1) \<Rightarrow> (Inl (GetZoneFailed zone err), w1)
                 | (Inr zoneData, w1) \<Rightarrow> (decodeRows e zone (ResourceRecords zoneData) [], w1))))"

definition AppendRecords ::
  "env \<Rightarrow> string \<Rightarrow> Record list \<Rightarrow> world \<Rightarrow> (error + Record list) \<times> world" where
  "AppendRecords e zone records w =
     (case ensureInitialized (prov w) of
        (Some err, p1) \<Rightarrow> (Inl err, w\<lparr>prov := p1\<rparr>)
      | (None, p1) \<Rightarrow>
          (if zone = [] then (Inl ZoneNameRequired, w\<lparr>prov := p1\<rparr>)
           else if length records = 0 then (Inl RecordRequired, w\<lparr>prov := p1\<rparr>)
           else (case addRecords e zone records (w\<lparr>prov := p1\<rparr>) of
                   (Some err, w1) \<Rightarrow> (Inl (AddRecordsFailed zone err), w1)
                 | (None, w1) \<Rightarrow> (Inr records, w1))))"

definition SetRecords ::
  "env \<Rightarrow> string \<Rightarrow> Record list \<Rightarrow> world \<Rightarrow> (error + Record list) \<times> world" where
  "SetRecords e zone records w =
     (case ensureInitialized (prov w) of
        (Some err, p1) \<Rightarrow> (Inl err, w\<lparr>prov := p1\<rparr>)
      | (None, p1) \<Rightarrow>
          (if zone = [] then (Inl ZoneNameRequired, w\<lparr>prov := p1\<rparr>)
           else if length records = 0 then (Inl RecordRequired, w\<lparr>prov := p1\<rparr>)
           else (case setRecords e zone records (w\<lparr>prov := p1\<rparr>) of
                   (Some err, w1) \<Rightarrow> (Inl (SetRecordsFailed zone err), w1)
                 | (None, w1) \<Rightarrow> (Inr records, w1))))"

definition DeleteRecords ::
  "env \<Rightarrow> string \<Rightarrow> Record list \<Rightarrow> world \<Rightarrow> (error + Record list) \<times> world" where
  "DeleteRecords e zone records w =
     (case ensureInitialized (prov w) of
        (Some err, p1) \<Rightarrow> (Inl err, w\<lparr>prov := p1\<rparr>)
      | (None, p1) \<Rightarrow>
          (if zone = [] then (Inl ZoneNameRequired, w\<lparr>prov := p1\<rparr>)
           else if length records = 0 then (Inl RecordRequired, w\<lparr>prov := p1\<rparr>)
           else (case deleteRecords e zone records (w\<lparr>prov := p1\<rparr>) of
                   (Some err, w1) \<Rightarrow> (Inl (DeleteRecordsFailed zone err), w1)
                 | (None, w1) \<Rightarrow> (Inr records, w1))))"

section \<open>Properties of the reconciliation, as the specification words them\<close>




text \<open>The errors that reject the caller's input before anything else is done.\<close>

fun isValidationError :: "error \<Rightarrow> bool" where
  "isValidationError UsernameRequired = True"
| "isValidationError PasswordRequired = True"
| "isValidationError ZoneNameRequired = True"
| "isValidationError RecordRequired = True"
| "isValidationError _ = False"

text \<open>The zone documents written so far: the bodies of the PUT requests sent.\<close>

definition writes :: "world \<Rightarrow> request list" where
  "writes w = filter isPUT (sent w)"

text \<open>What the public operations turn the outcome of the zone operation into.\<close>

definition finish ::
  "(string \<Rightarrow> error \<Rightarrow> error) \<Rightarrow> string \<Rightarrow> Record list \<Rightarrow> error option \<times> world \<Rightarrow>
   (error + Record list) \<times> world" where
  "finish wrap zone records res =
     (case res of (Some err, w1) \<Rightarrow> (Inl (wrap zone err), w1) | (None, w1) \<Rightarrow> (Inr records, w1))"

text \<open>
  A write is confirmed when the last request sent is a PUT that the API answered
  without an error.
\<close>

definition confirmedWrite :: "env \<Rightarrow> world \<Rightarrow> bool" where
  "confirmedWrite e w =
     (sent w \<noteq> [] \<and> isPUT (last (sent w)) \<and>
      \<not> isl (send e (butlast (sent w)) (last (sent w))))"

text \<open>
  \<open>cacheKept\<close>, of an operation on a zone that started in \<open>w\<close> and ended with \<open>res\<close>:
  every document that was cached is still cached, unless it is the document of this zone
  and the operation succeeded after a confirmed write; and an operation that succeeds
  leaves no document of this zone in the cache, after a confirmed write.
\<close>

definition cacheKept ::
  "env \<Rightarrow> string \<Rightarrow> world \<Rightarrow> (error + Record list) \<times> world \<Rightarrow> bool" where
  "cacheKept e zone w res =
     ((\<forall>z d. zones (prov w) z = Some d \<longrightarrow>
         zones (prov (snd res)) z = Some d \<or>
         (z = zone \<and> \<not> isl (fst res) \<and> confirmedWrite e (snd res))) \<and>
      (\<not> isl (fst res) \<longrightarrow> zones (prov (snd res)) zone = None \<and> confirmedWrite e (snd res)))"

text \<open>
  \<open>failsFast\<close>: the operation fails with the provider's own validation error if it has
  one and with \<open>err0\<close> otherwise, which is a validation error, and it has sent no
  request and left the cache as it was.
\<close>

definition failsFast :: "error \<Rightarrow> world \<Rightarrow> (error + Record list) \<times> world \<Rightarrow> bool" where
  "failsFast err0 w res =
     (fst res = Inl (case fst (ensureInitialized (prov w)) of Some err \<Rightarrow> err | None \<Rightarrow> err0) \<and>
      (\<exists>err. fst res = Inl err \<and> isValidationError err) \<and>
      sent (snd res) = sent w \<and> zones (prov (snd res)) = zones (prov w))"

text \<open>
  The shape the three zone operations share, used to reason about them together: fetch
  the document, edit it, write it back.
\<close>

definition fetchEditWrite ::
  "(Zone \<Rightarrow> Zone) \<Rightarrow> env \<Rightarrow> string \<Rightarrow> world \<Rightarrow> error option \<times> world" where
  "fetchEditWrite f e zone w =
     (case getZone e zone w of
        (Inl err, w1) \<Rightarrow> (Some (GetZoneFailed zone err), w1)
      | (Inr doc, w1) \<Rightarrow> setZone e zone (f doc) w1)"

section \<open>Concrete inputs for the examples\<close>

text \<open>
  The theorems below hold for every \<open>env\<close>. The examples run the operations in one
  \<open>env\<close>: \<^verbatim>\<open>libdns.AbsoluteName\<close> and \<^verbatim>\<open>libdns.RelativeName\<close> as the library defines
  them, \<^verbatim>\<open>RR.Parse\<close> returning the record it is given, every request well-formed, and
  the two addresses of the examples with their text forms.
\<close>

definition libdnsAbsoluteName :: "string \<Rightarrow> string \<Rightarrow> string" where
  "libdnsAbsoluteName name zone =
     (if zone = [] then Trim name ''.''
      else if name = [] \<or> name = ''@'' then zone
      else (if \<not> HasSuffix name ''.'' then name @ ''.'' else name) @ zone)"

definition libdnsRelativeName :: "string \<Rightarrow> string \<Rightarrow> string" where
  "libdnsRelativeName fqdn zone =
     (let rel = TrimSuffix (TrimSuffix (TrimSuffix fqdn ''.'') (TrimSuffix zone ''.'')) ''.''
      in if rel = [] \<and> fqdn \<noteq> [] \<and> zone \<noteq> [] then ''@'' else rel)"

definition exampleParseAddr :: "string \<Rightarrow> error + Addr" where
  "exampleParseAddr s =
     (if s = ''192.0.2.1'' then Inr (IPv4 0xC0000201)
      else if s = ''::1'' then Inr (IPv6 1 [])
      else Inl (LibError ''unable to parse IP''))"

definition exampleAddrString :: "Addr \<Rightarrow> string" where
  "exampleAddrString a =
     (if a = IPv4 0xC0000201 then ''192.0.2.1''
      else if a = IPv6 1 [] then ''::1''
      else ''invalid IP'')"

definition exampleEnv :: "(request list \<Rightarrow> request \<Rightarrow> error + Zone list) \<Rightarrow> env" where
  "exampleEnv server =
     \<lparr>AbsoluteName = libdnsAbsoluteName, RelativeName = libdnsRelativeName,
      ParseAddr = exampleParseAddr, AddrString = exampleAddrString, RRParse = Inr,
      NewRequest = (\<lambda>m u. None), Marshal = (\<lambda>z. None), send = server\<rparr>"

text \<open>Three servers: one that serves a document and accepts every write, one that serves
  a document and refuses every write, and one that answers no request.\<close>

definition acceptingServer :: "Zone \<Rightarrow> request list \<Rightarrow> request \<Rightarrow> error + Zone list" where
  "acceptingServer doc history req = (if isPUT req then Inr [] else Inr [doc])"

definition refusingServer :: "Zone \<Rightarrow> request list \<Rightarrow> request \<Rightarrow> error + Zone list" where
  "refusingServer doc history req =
     (if isPUT req then Inl (LibError ''HTTP 403'') else Inr [doc])"

definition deadServer :: "request list \<Rightarrow> request \<Rightarrow> error + Zone list" where
  "deadServer history req = Inl (LibError ''request failed'')"

definition zoneWith :: "ResourceRecord list \<Rightarrow> Zone" where
  "zoneWith rows =
     \<lparr>Created = 0, Updated = 0, Origin = ''example.com'', SOA = None, NameServers = [],
      WWWInclude = False, VirtualNameServer = [], Action = [], ResourceRecords = rows,
      ROID = 0\<rparr>"

definition row :: "string \<Rightarrow> string \<Rightarrow> string \<Rightarrow> ResourceRecord" where
  "row t n v = \<lparr>Name = n, TTL = 300, Type = t, Value = v, Pref = 0, Raw = []\<rparr>"

definition exampleProvider :: "(string \<Rightarrow> Zone option) \<Rightarrow> Provider" where
  "exampleProvider cache =
     \<lparr>Username = ''user'', Password = ''secret'', Context = ''4'',
      Endpoint = ''https://api.autodns.com/v1'', zones = cache, initialized = True\<rparr>"

definition exampleWorld :: "(string \<Rightarrow> Zone option) \<Rightarrow> world" where
  "exampleWorld cache = \<lparr>prov = exampleProvider cache, sent = []\<rparr>"

section \<open>Auxiliary facts\<close>

subsection \<open>The loops as list functions\<close>

lemma fold_append_map: "fold (\<lambda>x acc. acc @ [f x]) xs acc = acc @ map f xs"
  by (induction xs arbitrary: acc) simp_all


lemma convertRecords_map:
  "convertRecords e zoneName records = map (\<lambda>r. libdnsRecordToResourceRecord e r zoneName) records"
  by (simp add: convertRecords_def fold_append_map)


















lemma addRecords_rows:
  assumes "getZone e zoneName w = (Inr zoneData, w1)"
  shows "addRecords e zoneName records w =
         setZone e zoneName
           (zoneData\<lparr>ResourceRecords := ResourceRecords zoneData @
              map (\<lambda>r. libdnsRecordToResourceRecord e r zoneName) records\<rparr>) w1"
  using assms by (simp add: addRecords_def Let_def convertRecords_map)


subsection \<open>The cache and the requests\<close>

lemma isPUT_GET [simp]: "\<not> isPUT (mkRequest p ''GET'' u b)" "isPUT (mkRequest p ''PUT'' u b)"
  by (simp_all add: mkRequest_def)

lemma getZone_fails:
  assumes "getZone e zone w = (Inl err, w1)"
  shows "prov w1 = prov w \<and> writes w1 = writes w"
  using assms
  by (auto simp: getZone_def writes_def Let_def split: option.splits sum.splits if_splits)

lemma getZone_succeeds:
  assumes "getZone e zone w = (Inr doc, w1)"
  shows "writes w1 = writes w \<and> zones (prov w1) = (zones (prov w))(zone \<mapsto> doc)"
  using assms
  by (auto simp: getZone_def writes_def Let_def split: option.splits sum.splits if_splits)

lemma getZone_writes: "writes (snd (getZone e zone w)) = writes w"
  by (cases "getZone e zone w"; cases "fst (getZone e zone w)")
     (auto dest: getZone_fails getZone_succeeds)

lemma setZone_fails:
  assumes "setZone e zone doc w = (Some err, w1)"
  shows "prov w1 = prov w"
  using assms
  by (auto simp: setZone_def Let_def split: option.splits sum.splits)

lemma setZone_succeeds:
  assumes "setZone e zone doc w = (None, w1)"
  shows "zones (prov w1) = (zones (prov w))(zone := None) \<and> confirmedWrite e w1"
  using assms
  by (auto simp: setZone_def confirmedWrite_def Let_def split: option.splits sum.splits)

text \<open>The document written back: the body of the PUT request is the document handed to
  \<open>setZone\<close>, with its rows as they are and its timestamps cleared.\<close>

lemma setZone_sends:
  assumes "Marshal e (cleanZone doc) = None" and "NewRequest e ''PUT'' (zoneURL (prov w) zone) = None"
  shows "sent (snd (setZone e zone doc w)) =
           sent w @ [mkRequest (prov w) ''PUT'' (zoneURL (prov w) zone) (Some (cleanZone doc))] \<and>
         ResourceRecords (cleanZone doc) = ResourceRecords doc"
  using assms by (simp add: setZone_def cleanZone_def Let_def split: sum.splits)

lemma addRecords_shape: "\<exists>f. addRecords e zone records = fetchEditWrite f e zone"
  by (rule exI [where x = "\<lambda>doc. doc\<lparr>ResourceRecords := ResourceRecords doc @ convertRecords e zone records\<rparr>"])
     (auto simp: fun_eq_iff addRecords_def fetchEditWrite_def Let_def split: prod.splits sum.splits)

lemma setRecords_shape: "\<exists>f. setRecords e zone records = fetchEditWrite f e zone"
  by (rule exI [where x = "\<lambda>doc. doc\<lparr>ResourceRecords :=
         fold (\<lambda>rr preserved.
                 if \<not> lookupBool (replaceKeys zone (convertRecords e zone records)) (Type rr @ '':'' @ Name rr)
                 then preserved @ [rr] else preserved) (ResourceRecords doc) [] @
         convertRecords e zone records\<rparr>"])
     (auto simp: fun_eq_iff setRecords_def fetchEditWrite_def Let_def split: prod.splits sum.splits)

lemma deleteRecords_shape: "\<exists>f. deleteRecords e zone records = fetchEditWrite f e zone"
  by (rule exI [where x = "\<lambda>doc. doc\<lparr>ResourceRecords :=
         fold (\<lambda>rr remaining.
                 if \<not> lookupBool (deleteKeys e zone records) (Type rr @ '':'' @ Name rr @ '':'' @ Value rr)
                 then remaining @ [rr] else remaining) (ResourceRecords doc) []\<rparr>"])
     (auto simp: fun_eq_iff deleteRecords_def fetchEditWrite_def Let_def split: prod.splits sum.splits)

lemma fetchEditWrite_fails:
  assumes "fetchEditWrite f e zone w = (Some err, w2)" and "zones (prov w) z = Some d"
  shows "zones (prov w2) z = Some d"
proof (cases "getZone e zone w")
  case (Pair r w1)
  show ?thesis
  proof (cases r)
    case (Inl x)
    with Pair assms show ?thesis
      by (auto simp: fetchEditWrite_def dest: getZone_fails)
  next
    case (Inr doc)
    with Pair have g: "getZone e zone w = (Inr doc, w1)" by simp
    then have s: "setZone e zone (f doc) w1 = (Some err, w2)"
      using assms(1) by (simp add: fetchEditWrite_def)
    have "zones (prov w1) z = Some d"
    proof (cases "zones (prov w) zone")
      case None
      with assms(2) have "z \<noteq> zone" by auto
      with getZone_succeeds [OF g] assms(2) show ?thesis by simp
    next
      case (Some c)
      with g have "w1 = w" by (simp add: getZone_def)
      with assms(2) show ?thesis by simp
    qed
    with setZone_fails [OF s] show ?thesis by simp
  qed
qed

lemma fetchEditWrite_succeeds:
  assumes "fetchEditWrite f e zone w = (None, w2)"
  shows "zones (prov w2) zone = None \<and> confirmedWrite e w2 \<and>
         (\<forall>z d. zones (prov w) z = Some d \<longrightarrow> z \<noteq> zone \<longrightarrow> zones (prov w2) z = Some d)"
proof (cases "getZone e zone w")
  case (Pair r w1)
  show ?thesis
  proof (cases r)
    case (Inl x)
    with Pair assms show ?thesis by (simp add: fetchEditWrite_def)
  next
    case (Inr doc)
    with Pair have g: "getZone e zone w = (Inr doc, w1)" by simp
    then have s: "setZone e zone (f doc) w1 = (None, w2)"
      using assms(1) by (simp add: fetchEditWrite_def)
    from setZone_succeeds [OF s] getZone_succeeds [OF g] show ?thesis by simp
  qed
qed

lemma finish_cacheKept:
  assumes "ensureInitialized (prov w) = (None, p1)" and "zones p1 = zones (prov w)"
  shows "cacheKept e zone w (finish wrap zone records (fetchEditWrite f e zone (w\<lparr>prov := p1\<rparr>)))"
proof (cases "fetchEditWrite f e zone (w\<lparr>prov := p1\<rparr>)")
  case (Pair r w2)
  show ?thesis
  proof (cases r)
    case None
    with Pair fetchEditWrite_succeeds [of f e zone "w\<lparr>prov := p1\<rparr>" w2] assms(2) show ?thesis
      by (auto simp: cacheKept_def finish_def)
  next
    case (Some err)
    with Pair have "fetchEditWrite f e zone (w\<lparr>prov := p1\<rparr>) = (Some err, w2)" by simp
    from fetchEditWrite_fails [OF this] Pair Some assms(2) show ?thesis
      by (auto simp: cacheKept_def finish_def)
  qed
qed

lemma ensureInitialized_zones: "zones (snd (ensureInitialized p)) = zones p"
  by (simp add: ensureInitialized_def Let_def)

lemma ensureInitialized_error:
  "fst (ensureInitialized p) = Some err \<Longrightarrow> isValidationError err"
  by (auto simp: ensureInitialized_def Let_def split: if_splits)


lemma cacheKept_untouched:
  "isl r \<Longrightarrow> zones p1 = zones (prov w) \<Longrightarrow> cacheKept e zone w (r, w\<lparr>prov := p1\<rparr>)"
  by (simp add: cacheKept_def)

lemma public_cacheKept:
  assumes "\<exists>f. inner e zone records = fetchEditWrite f e zone"
    and "\<And>w. public w =
       (case ensureInitialized (prov w) of
          (Some err, p1) \<Rightarrow> (Inl err, w\<lparr>prov := p1\<rparr>)
        | (None, p1) \<Rightarrow>
            (if zone = [] then (Inl ZoneNameRequired, w\<lparr>prov := p1\<rparr>)
             else if length records = 0 then (Inl RecordRequired, w\<lparr>prov := p1\<rparr>)
             else finish wrap zone records (inner e zone records (w\<lparr>prov := p1\<rparr>))))"
  shows "cacheKept e zone w (public w)"
proof -
  from assms(1) obtain f where f: "inner e zone records = fetchEditWrite f e zone" ..
  obtain r p1 where i: "ensureInitialized (prov w) = (r, p1)" by (cases "ensureInitialized (prov w)")
  then have z: "zones p1 = zones (prov w)"
    using ensureInitialized_zones [of "prov w"] by simp
  show ?thesis
  proof (cases r)
    case (Some err)
    with i z show ?thesis by (simp add: assms(2) cacheKept_untouched)
  next
    case None
    with i have i': "ensureInitialized (prov w) = (None, p1)" by simp
    show ?thesis
      using finish_cacheKept [OF i' z, of e zone wrap records f] i' z
      by (simp add: assms(2) f cacheKept_untouched)
  qed
qed

lemma AppendRecords_finish:
  "AppendRecords e zone records w =
       (case ensureInitialized (prov w) of
          (Some err, p1) \<Rightarrow> (Inl err, w\<lparr>prov := p1\<rparr>)
        | (None, p1) \<Rightarrow>
            (if zone = [] then (Inl ZoneNameRequired, w\<lparr>prov := p1\<rparr>)
             else if length records = 0 then (Inl RecordRequired, w\<lparr>prov := p1\<rparr>)
             else finish AddRecordsFailed zone records (addRecords e zone records (w\<lparr>prov := p1\<rparr>))))"
  by (simp add: AppendRecords_def finish_def split: prod.splits option.splits)

lemma SetRecords_finish:
  "SetRecords e zone records w =
       (case ensureInitialized (prov w) of
          (Some err, p1) \<Rightarrow> (Inl err, w\<lparr>prov := p1\<rparr>)
        | (None, p1) \<Rightarrow>
            (if zone = [] then (Inl ZoneNameRequired, w\<lparr>prov := p1\<rparr>)
             else if length records = 0 then (Inl RecordRequired, w\<lparr>prov := p1\<rparr>)
             else finish SetRecordsFailed zone records (setRecords e zone records (w\<lparr>prov := p1\<rparr>))))"
  by (simp add: SetRecords_def finish_def split: prod.splits option.splits)

lemma DeleteRecords_finish:
  "DeleteRecords e zone records w =
       (case ensureInitialized (prov w) of
          (Some err, p1) \<Rightarrow> (Inl err, w\<lparr>prov := p1\<rparr>)
        | (None, p1) \<Rightarrow>
            (if zone = [] then (Inl ZoneNameRequired, w\<lparr>prov := p1\<rparr>)
             else if length records = 0 then (Inl RecordRequired, w\<lparr>prov := p1\<rparr>)
             else finish DeleteRecordsFailed zone records (deleteRecords e zone records (w\<lparr>prov := p1\<rparr>))))"
  by (simp add: DeleteRecords_def finish_def split: prod.splits option.splits)

lemma failsFast_intro:
  assumes "isValidationError err0"
  shows "failsFast err0 w
           (case ensureInitialized (prov w) of
              (Some err, p1) \<Rightarrow> (Inl err, w\<lparr>prov := p1\<rparr>)
            | (None, p1) \<Rightarrow> (Inl err0, w\<lparr>prov := p1\<rparr>))"
proof (cases "ensureInitialized (prov w)")
  case (Pair r p1)
  then have z: "zones p1 = zones (prov w)"
    using ensureInitialized_zones [of "prov w"] by simp
  show ?thesis
  proof (cases r)
    case None
    with Pair z assms show ?thesis by (simp add: failsFast_def)
  next
    case (Some err)
    with Pair have "isValidationError err"
      using ensureInitialized_error [of "prov w" err] by simp
    with Pair Some z show ?thesis by (simp add: failsFast_def)
  qed
qed

subsection \<open>The decoding loop\<close>

lemma decodeRows_ok:
  "\<forall>rr \<in> set rows. \<not> isl (libdnsRecord e rr zone) \<Longrightarrow>
   decodeRows e zone rows acc = Inr (acc @ map (\<lambda>rr. projr (libdnsRecord e rr zone)) rows)"
proof (induction rows arbitrary: acc)
  case Nil
  then show ?case by simp
next
  case (Cons rr rows)
  then obtain r where "libdnsRecord e rr zone = Inr r"
    by (cases "libdnsRecord e rr zone") auto
  with Cons show ?case by simp
qed

lemma decodeRows_fail:
  "\<forall>x \<in> set pre. \<not> isl (libdnsRecord e x zone) \<Longrightarrow> libdnsRecord e rr zone = Inl err \<Longrightarrow>
   decodeRows e zone (pre @ rr # post) acc = Inl (ConvertFailed (Name rr) err)"
proof (induction pre arbitrary: acc)
  case Nil
  then show ?case by simp
next
  case (Cons x pre)
  then obtain r where "libdnsRecord e x zone = Inr r"
    by (cases "libdnsRecord e x zone") auto
  with Cons show ?case by simp
qed

lemma GetRecords_writes: "writes (snd (GetRecords e zone w)) = writes w"
proof (cases "ensureInitialized (prov w)")
  case (Pair r p)
  have g: "writes (snd (getZone e zone (w\<lparr>prov := p\<rparr>))) = writes w"
    using getZone_writes [of e zone "w\<lparr>prov := p\<rparr>"] by (simp add: writes_def)
  show ?thesis
  proof (cases "getZone e zone (w\<lparr>prov := p\<rparr>)")
    case g': (Pair res w1)
    with g have "writes w1 = writes w" by simp
    with Pair g' show ?thesis
      by (cases r; cases res) (simp_all add: GetRecords_def writes_def)
  qed
qed

subsection \<open>Evaluation of the examples\<close>

lemma example_abs [simp]:
  "libdnsAbsoluteName ''test'' ''example.com'' = ''test.example.com''"
  "libdnsAbsoluteName ''www'' ''example.com'' = ''www.example.com''"
  by (simp_all add: libdnsAbsoluteName_def HasSuffix_def)

lemma example_short [simp]:
  "TrimSuffix ''test.example.com'' ''.example.com'' = ''test''"
  "TrimSuffix ''www.example.com'' ''.example.com'' = ''www''"
  by (simp_all add: TrimSuffix_def HasSuffix_def)

lemma seconds_300 [simp]: "seconds_of (300 * Second) = 300"
  by (simp add: seconds_of_def Second_def signed_divide_int_def)

lemma ensureInitialized_example [simp]:
  "ensureInitialized (exampleProvider cache) = (None, exampleProvider cache)"
  by (simp add: ensureInitialized_def exampleProvider_def)

lemma decode_examples:
  "libdnsRecord (exampleEnv server) (row ''TXT'' ''test.example.com'' ''hello'') ''example.com'' =
     Inr (TXT ''test'' (300 * Second) ''hello'')"
  "libdnsRecord (exampleEnv server) (row ''A'' ''www'' ''not an address'') ''example.com'' =
     Inl (InvalidIPAddress ''not an address'' (LibError ''unable to parse IP''))"
  "libdnsRecord (exampleEnv server) (row ''CNAME'' ''ftp'' ''www.example.com'') ''example.com'' =
     Inr (CNAME ''ftp'' (300 * Second) ''www.example.com'')"
  by (simp_all add: libdnsRecord_def exampleEnv_def row_def libdnsRelativeName_def TrimSuffix_def
      HasSuffix_def exampleParseAddr_def Let_def)

lemma srv_fields: "Fields ''10 5060 sip.example.com'' = [''10'', ''5060'', ''sip.example.com'']"
  by (simp add: Fields_def asciiSpace_def)

lemma srv_numbers: "ParseUint ''10'' 16 = Inr 10" "ParseUint ''5060'' 16 = Inr 5060"
  by (simp_all add: ParseUint_def isDigit_def)

lemma srv_parts:
  "SplitN ''_sip._tcp.sub.example.com'' CHR ''.'' 3 = [''_sip'', ''_tcp'', ''sub.example.com'']"
  "SplitN ''_sip._tcp'' CHR ''.'' 3 = [''_sip'', ''_tcp'']"
  by (simp_all add: eval_nat_numeral)

lemma srv_labels: "TrimPrefix ''_sip'' ''_'' = ''sip''" "TrimPrefix ''_tcp'' ''_'' = ''tcp''"
  by (simp_all add: TrimPrefix_def HasPrefix_def)

section \<open>Record codec\<close>

text \<open>
  Claim C4 says that an Address record is encoded with Type \<open>AAAA\<close> when its IP is an
  IPv6 address. The encoder writes Type \<open>A\<close> for every Address record: for the IPv6
  address \<open>::1\<close> the row has Type \<open>A\<close> and Value \<open>::1\<close>.
\<close>

theorem Address_IPv6_encoded_as_A:
  "Is6 (IPv6 1 []) \<and>
   libdnsRecordToResourceRecord (exampleEnv deadServer)
     (Address ''www'' (300 * Second) (IPv6 1 [])) ''example.com'' =
   \<lparr>Name = ''www.example.com'', TTL = 300, Type = ''A'', Value = ''::1'', Pref = 0, Raw = []\<rparr>"
  by (simp add: exampleEnv_def exampleAddrString_def)

text \<open>
  Claim C5 says that the SRV row named \<open>_sip._tcp.sub.example.com\<close> of the zone
  \<open>example.com\<close> decodes to Service \<open>sip\<close>, Transport \<open>tcp\<close> and Name \<open>sub\<close>. The
  decoder takes the Name from the third piece of the row's name as it stands, without
  the relative name it computed: the decoded Name is \<open>sub.example.com\<close>. The row named
  \<open>_sip._tcp\<close> decodes to Name \<open>@\<close>.
\<close>

theorem SRV_decoded_name_keeps_zone:
  "libdnsRecord (exampleEnv deadServer)
     \<lparr>Name = ''_sip._tcp.sub.example.com'', TTL = 300, Type = ''SRV'',
      Value = ''10 5060 sip.example.com'', Pref = 1, Raw = []\<rparr> ''example.com'' =
   Inr (SRV ''sip'' ''tcp'' ''sub.example.com'' (300 * Second) 1 10 5060 ''sip.example.com'') \<and>
   libdnsRecord (exampleEnv deadServer)
     \<lparr>Name = ''_sip._tcp'', TTL = 300, Type = ''SRV'',
      Value = ''10 5060 sip.example.com'', Pref = 1, Raw = []\<rparr> ''example.com'' =
   Inr (SRV ''sip'' ''tcp'' ''@'' (300 * Second) 1 10 5060 ''sip.example.com'')"
  by (simp add: libdnsRecord_def Let_def srv_fields srv_numbers srv_parts srv_labels)

text \<open>
  Claim C6, as the encoder has it: a generic record of a type other than those of
  \<^verbatim>\<open>libdns\<close> is encoded as the fixed row with Name \<open>unknown\<close>, Type \<open>UNKNOWN\<close>,
  Value \<open>unknown\<close> and TTL 0. The encoder returns a row and has no error result, so
  \<open>AppendRecords\<close> goes on to write the zone document with that row appended.
\<close>

theorem unknown_record_placeholder:
  "libdnsRecordToResourceRecord e (OtherRecord tyname) zone =
     \<lparr>Name = ''unknown'', TTL = 0, Type = ''UNKNOWN'', Value = ''unknown'', Pref = 0, Raw = []\<rparr> \<and>
   (ensureInitialized (prov w) = (None, p1) \<longrightarrow> zone \<noteq> [] \<longrightarrow>
    getZone e zone (w\<lparr>prov := p1\<rparr>) = (Inr zoneData, w1) \<longrightarrow>
      AppendRecords e zone [OtherRecord tyname] w =
        finish AddRecordsFailed zone [OtherRecord tyname]
          (setZone e zone
             (zoneData\<lparr>ResourceRecords := ResourceRecords zoneData @
                [\<lparr>Name = ''unknown'', TTL = 0, Type = ''UNKNOWN'', Value = ''unknown'',
                  Pref = 0, Raw = []\<rparr>]\<rparr>) w1))"
proof (intro conjI impI)
  show "libdnsRecordToResourceRecord e (OtherRecord tyname) zone =
     \<lparr>Name = ''unknown'', TTL = 0, Type = ''UNKNOWN'', Value = ''unknown'', Pref = 0, Raw = []\<rparr>"
    by simp
next
  assume i: "ensureInitialized (prov w) = (None, p1)" and z: "zone \<noteq> []"
    and g: "getZone e zone (w\<lparr>prov := p1\<rparr>) = (Inr zoneData, w1)"
  show "AppendRecords e zone [OtherRecord tyname] w =
        finish AddRecordsFailed zone [OtherRecord tyname]
          (setZone e zone
             (zoneData\<lparr>ResourceRecords := ResourceRecords zoneData @
                [\<lparr>Name = ''unknown'', TTL = 0, Type = ''UNKNOWN'', Value = ''unknown'',
                  Pref = 0, Raw = []\<rparr>]\<rparr>) w1)"
    using i z
    by (simp add: AppendRecords_def finish_def addRecords_rows [OF g] split: prod.splits option.splits)
qed

theorem unknown_record_placeholder_witness:
  "fst (AppendRecords (exampleEnv (acceptingServer (zoneWith []))) ''example.com''
          [OtherRecord ''dnsext.LOC''] (exampleWorld [''example.com'' \<mapsto> zoneWith []])) =
     Inr [OtherRecord ''dnsext.LOC''] \<and>
   sent (snd (AppendRecords (exampleEnv (acceptingServer (zoneWith []))) ''example.com''
          [OtherRecord ''dnsext.LOC''] (exampleWorld [''example.com'' \<mapsto> zoneWith []]))) =
     [Request ''PUT'' ''https://api.autodns.com/v1/zone/example.com'' ''user'' ''secret'' ''4''
        (Some (zoneWith [\<lparr>Name = ''unknown'', TTL = 0, Type = ''UNKNOWN'', Value = ''unknown'',
                          Pref = 0, Raw = []\<rparr>]))]"
proof -
  let ?e = "exampleEnv (acceptingServer (zoneWith []))"
  let ?c = "[''example.com'' \<mapsto> zoneWith []]"
  have i: "ensureInitialized (prov (exampleWorld ?c)) = (None, exampleProvider ?c)"
    by (simp add: exampleWorld_def)
  have g: "getZone ?e ''example.com'' ((exampleWorld ?c)\<lparr>prov := exampleProvider ?c\<rparr>) =
           (Inr (zoneWith []), exampleWorld ?c)"
    by (simp add: getZone_def exampleWorld_def exampleProvider_def)
  have "AppendRecords ?e ''example.com'' [OtherRecord ''dnsext.LOC''] (exampleWorld ?c) =
        finish AddRecordsFailed ''example.com'' [OtherRecord ''dnsext.LOC'']
          (setZone ?e ''example.com''
             ((zoneWith [])\<lparr>ResourceRecords := ResourceRecords (zoneWith []) @
                [\<lparr>Name = ''unknown'', TTL = 0, Type = ''UNKNOWN'', Value = ''unknown'',
                  Pref = 0, Raw = []\<rparr>]\<rparr>) (exampleWorld ?c))"
    using unknown_record_placeholder [of ?e "''dnsext.LOC''" "''example.com''" "exampleWorld ?c"
        "exampleProvider ?c" "zoneWith []" "exampleWorld ?c"] i g
    by simp
  then show ?thesis
    by (simp add: exampleEnv_def zoneWith_def finish_def setZone_def cleanZone_def
        mkRequest_def zoneURL_def acceptingServer_def exampleWorld_def exampleProvider_def)
qed

text \<open>
  The claim as stated asks for an error instead of the placeholder row. Appending a
  record of an unknown type succeeds, and the document written holds the placeholder.
\<close>

theorem unknown_record_is_written:
  "AppendRecords (exampleEnv (acceptingServer (zoneWith []))) ''example.com''
     [OtherRecord ''dnsext.LOC'']
     (exampleWorld [''example.com'' \<mapsto> zoneWith [row ''TXT'' ''www'' ''kept'']]) =
   (Inr [OtherRecord ''dnsext.LOC''],
    \<lparr>prov = exampleProvider Map.empty,
      sent = [Request ''PUT'' ''https://api.autodns.com/v1/zone/example.com'' ''user'' ''secret'' ''4''
        (Some (zoneWith [row ''TXT'' ''www'' ''kept'',
                         \<lparr>Name = ''unknown'', TTL = 0, Type = ''UNKNOWN'', Value = ''unknown'',
                           Pref = 0, Raw = []\<rparr>]))]\<rparr>)"
  by (simp add: AppendRecords_def addRecords_def convertRecords_def getZone_def setZone_def
      cleanZone_def mkRequest_def zoneURL_def ensureInitialized_def exampleEnv_def
      acceptingServer_def exampleWorld_def exampleProvider_def zoneWith_def row_def Let_def)


section \<open>Append\<close>

text \<open>
  Claim C3. Once the provider is initialised, the zone name and the record list are not
  empty and the current zone document has been fetched, \<open>AppendRecords\<close> writes the
  document back with its rows unchanged and in their order, followed by the encoded
  caller records in the caller's order, and nothing is de-duplicated: the written row
  list is the concatenation of the two lists, so a record given twice gives two rows.
\<close>

theorem AppendRecords_concatenates:
  assumes "ensureInitialized (prov w) = (None, p1)" and "zone \<noteq> []" and "records \<noteq> []"
    and "getZone e zone (w\<lparr>prov := p1\<rparr>) = (Inr zoneData, w1)"
  shows "AppendRecords e zone records w =
         finish AddRecordsFailed zone records
           (setZone e zone
              (zoneData\<lparr>ResourceRecords := ResourceRecords zoneData @
                 map (\<lambda>r. libdnsRecordToResourceRecord e r zone) records\<rparr>) w1)"
  using assms
  by (simp add: AppendRecords_def finish_def addRecords_rows [OF assms(4)] split: prod.splits option.splits)

theorem AppendRecords_concatenates_witness:
  "fst (AppendRecords (exampleEnv (acceptingServer (zoneWith []))) ''example.com''
          [TXT ''test'' (300 * Second) ''hello'', TXT ''test'' (300 * Second) ''hello'']
          (exampleWorld [''example.com'' \<mapsto> zoneWith [row ''TXT'' ''test.example.com'' ''hello'']])) =
     Inr [TXT ''test'' (300 * Second) ''hello'', TXT ''test'' (300 * Second) ''hello''] \<and>
   sent (snd (AppendRecords (exampleEnv (acceptingServer (zoneWith []))) ''example.com''
          [TXT ''test'' (300 * Second) ''hello'', TXT ''test'' (300 * Second) ''hello'']
          (exampleWorld [''example.com'' \<mapsto> zoneWith [row ''TXT'' ''test.example.com'' ''hello'']]))) =
     [Request ''PUT'' ''https://api.autodns.com/v1/zone/example.com'' ''user'' ''secret'' ''4''
        (Some (zoneWith [row ''TXT'' ''test.example.com'' ''hello'',
                         row ''TXT'' ''test.example.com'' ''hello'',
                         row ''TXT'' ''test.example.com'' ''hello'']))]"
proof -
  let ?doc = "zoneWith [row ''TXT'' ''test.example.com'' ''hello'']"
  let ?w = "exampleWorld [''example.com'' \<mapsto> ?doc]"
  let ?e = "exampleEnv (acceptingServer (zoneWith []))"
  have i: "ensureInitialized (prov ?w) = (None, exampleProvider [''example.com'' \<mapsto> ?doc])"
    by (simp add: exampleWorld_def)
  have z: "''example.com'' \<noteq> []" by simp
  have r: "[TXT ''test'' (300 * Second) ''hello'', TXT ''test'' (300 * Second) ''hello''] \<noteq> []"
    by simp
  have g: "getZone ?e ''example.com'' (?w\<lparr>prov := exampleProvider [''example.com'' \<mapsto> ?doc]\<rparr>) =
           (Inr ?doc, ?w)"
    by (simp add: getZone_def exampleWorld_def exampleProvider_def)
  show ?thesis
    using AppendRecords_concatenates [OF i z r g]
    by (simp add: exampleEnv_def zoneWith_def row_def finish_def setZone_def cleanZone_def
        mkRequest_def zoneURL_def acceptingServer_def exampleWorld_def exampleProvider_def)
qed

section \<open>Set\<close>




section \<open>Delete\<close>




section \<open>Get\<close>

text \<open>
  Claim C7. \<open>GetRecords\<close> writes nothing. On the fetched zone document it decodes every
  row: when every row decodes, the result is the list of the decoded records, in the
  rows' order; when some row fails to decode, the call fails with the conversion error
  of the first such row and returns no record.
\<close>

theorem GetRecords_all_or_nothing:
  "writes (snd (GetRecords e zone w)) = writes w \<and>
   (ensureInitialized (prov w) = (None, p1) \<longrightarrow> zone \<noteq> [] \<longrightarrow>
    getZone e zone (w\<lparr>prov := p1\<rparr>) = (Inr zoneData, w1) \<longrightarrow>
      ((\<forall>rr \<in> set (ResourceRecords zoneData). \<not> isl (libdnsRecord e rr zone)) \<longrightarrow>
         GetRecords e zone w =
           (Inr (map (\<lambda>rr. projr (libdnsRecord e rr zone)) (ResourceRecords zoneData)), w1)) \<and>
      (\<forall>pre rr post err.
         ResourceRecords zoneData = pre @ rr # post \<longrightarrow>
         (\<forall>x \<in> set pre. \<not> isl (libdnsRecord e x zone)) \<longrightarrow>
         libdnsRecord e rr zone = Inl err \<longrightarrow>
           GetRecords e zone w = (Inl (ConvertFailed (Name rr) err), w1)))"
proof (intro conjI impI allI)
  show "writes (snd (GetRecords e zone w)) = writes w" by (rule GetRecords_writes)
next
  assume "ensureInitialized (prov w) = (None, p1)" "zone \<noteq> []"
    "getZone e zone (w\<lparr>prov := p1\<rparr>) = (Inr zoneData, w1)"
    "\<forall>rr \<in> set (ResourceRecords zoneData). \<not> isl (libdnsRecord e rr zone)"
  then show "GetRecords e zone w =
           (Inr (map (\<lambda>rr. projr (libdnsRecord e rr zone)) (ResourceRecords zoneData)), w1)"
    by (simp add: GetRecords_def decodeRows_ok)
next
  fix pre rr post err
  assume "ensureInitialized (prov w) = (None, p1)" "zone \<noteq> []"
    "getZone e zone (w\<lparr>prov := p1\<rparr>) = (Inr zoneData, w1)"
    "ResourceRecords zoneData = pre @ rr # post"
    "\<forall>x \<in> set pre. \<not> isl (libdnsRecord e x zone)"
    "libdnsRecord e rr zone = Inl err"
  then show "GetRecords e zone w = (Inl (ConvertFailed (Name rr) err), w1)"
    by (simp add: GetRecords_def decodeRows_fail)
qed

theorem GetRecords_all_or_nothing_witness:
  "GetRecords (exampleEnv deadServer) ''example.com''
     (exampleWorld [''example.com'' \<mapsto>
        zoneWith [row ''TXT'' ''test.example.com'' ''hello'', row ''CNAME'' ''ftp'' ''www.example.com'']]) =
   (Inr [TXT ''test'' (300 * Second) ''hello'', CNAME ''ftp'' (300 * Second) ''www.example.com''],
    exampleWorld [''example.com'' \<mapsto>
        zoneWith [row ''TXT'' ''test.example.com'' ''hello'', row ''CNAME'' ''ftp'' ''www.example.com'']]) \<and>
   GetRecords (exampleEnv deadServer) ''example.com''
     (exampleWorld [''example.com'' \<mapsto>
        zoneWith [row ''TXT'' ''test.example.com'' ''hello'', row ''A'' ''www'' ''not an address'',
                  row ''CNAME'' ''ftp'' ''www.example.com'']]) =
   (Inl (ConvertFailed ''www'' (InvalidIPAddress ''not an address'' (LibError ''unable to parse IP''))),
    exampleWorld [''example.com'' \<mapsto>
        zoneWith [row ''TXT'' ''test.example.com'' ''hello'', row ''A'' ''www'' ''not an address'',
                  row ''CNAME'' ''ftp'' ''www.example.com'']])"
proof -
  let ?e = "exampleEnv deadServer"
  let ?good = "zoneWith [row ''TXT'' ''test.example.com'' ''hello'', row ''CNAME'' ''ftp'' ''www.example.com'']"
  let ?bad = "zoneWith [row ''TXT'' ''test.example.com'' ''hello'', row ''A'' ''www'' ''not an address'',
                  row ''CNAME'' ''ftp'' ''www.example.com'']"
  let ?wg = "exampleWorld [''example.com'' \<mapsto> ?good]"
  let ?wb = "exampleWorld [''example.com'' \<mapsto> ?bad]"
  have z: "''example.com'' \<noteq> []" by simp
  have ig: "ensureInitialized (prov ?wg) = (None, exampleProvider [''example.com'' \<mapsto> ?good])"
    by (simp add: exampleWorld_def)
  have gg: "getZone ?e ''example.com'' (?wg\<lparr>prov := exampleProvider [''example.com'' \<mapsto> ?good]\<rparr>) =
            (Inr ?good, ?wg)"
    by (simp add: getZone_def exampleWorld_def exampleProvider_def)
  have ok: "\<forall>rr \<in> set (ResourceRecords ?good). \<not> isl (libdnsRecord ?e rr ''example.com'')"
    by (simp add: zoneWith_def decode_examples)
  have ib: "ensureInitialized (prov ?wb) = (None, exampleProvider [''example.com'' \<mapsto> ?bad])"
    by (simp add: exampleWorld_def)
  have gb: "getZone ?e ''example.com'' (?wb\<lparr>prov := exampleProvider [''example.com'' \<mapsto> ?bad]\<rparr>) =
            (Inr ?bad, ?wb)"
    by (simp add: getZone_def exampleWorld_def exampleProvider_def)
  have split: "ResourceRecords ?bad = [row ''TXT'' ''test.example.com'' ''hello''] @
                 row ''A'' ''www'' ''not an address'' # [row ''CNAME'' ''ftp'' ''www.example.com'']"
    by (simp add: zoneWith_def)
  have pre: "\<forall>x \<in> set [row ''TXT'' ''test.example.com'' ''hello'']. \<not> isl (libdnsRecord ?e x ''example.com'')"
    by (simp add: decode_examples)
  have "GetRecords ?e ''example.com'' ?wg =
          (Inr (map (\<lambda>rr. projr (libdnsRecord ?e rr ''example.com'')) (ResourceRecords ?good)), ?wg)"
    using GetRecords_all_or_nothing [of ?e "''example.com''" ?wg _ ?good ?wg] ig z gg ok by blast
  moreover have "GetRecords ?e ''example.com'' ?wb =
          (Inl (ConvertFailed (Name (row ''A'' ''www'' ''not an address''))
             (InvalidIPAddress ''not an address'' (LibError ''unable to parse IP''))), ?wb)"
    using GetRecords_all_or_nothing [of ?e "''example.com''" ?wb _ ?bad ?wb] ib z gb split pre
      decode_examples(2) [of deadServer]
    by blast
  ultimately show ?thesis
    by (simp add: zoneWith_def decode_examples) (simp add: row_def)
qed


section \<open>Failure of the fetch and of the write\<close>

text \<open>
  Claim C8. When fetching the zone document fails, each of \<open>AppendRecords\<close>,
  \<open>SetRecords\<close> and \<open>DeleteRecords\<close> fails with the error of the fetch and no write is
  sent. The cached document of a zone is removed only by an operation that succeeds,
  after a confirmed write; when the operation fails, every document that was in the
  cache is still there.
\<close>

theorem fetch_failure_aborts_and_cache_kept:
  "(ensureInitialized (prov w) = (None, p1) \<longrightarrow> zone \<noteq> [] \<longrightarrow> records \<noteq> [] \<longrightarrow>
    getZone e zone (w\<lparr>prov := p1\<rparr>) = (Inl err, w1) \<longrightarrow>
      AppendRecords e zone records w = (Inl (AddRecordsFailed zone (GetZoneFailed zone err)), w1) \<and>
      SetRecords e zone records w = (Inl (SetRecordsFailed zone (GetZoneFailed zone err)), w1) \<and>
      DeleteRecords e zone records w = (Inl (DeleteRecordsFailed zone (GetZoneFailed zone err)), w1) \<and>
      writes w1 = writes w \<and> zones (prov w1) = zones (prov w)) \<and>
   cacheKept e zone w (AppendRecords e zone records w) \<and>
   cacheKept e zone w (SetRecords e zone records w) \<and>
   cacheKept e zone w (DeleteRecords e zone records w)"
proof (intro conjI impI)
  assume i: "ensureInitialized (prov w) = (None, p1)" and z: "zone \<noteq> []" and r: "records \<noteq> []"
    and g: "getZone e zone (w\<lparr>prov := p1\<rparr>) = (Inl err, w1)"
  show "AppendRecords e zone records w = (Inl (AddRecordsFailed zone (GetZoneFailed zone err)), w1)"
    using i z r g by (simp add: AppendRecords_def addRecords_def)
  show "SetRecords e zone records w = (Inl (SetRecordsFailed zone (GetZoneFailed zone err)), w1)"
    using i z r g by (simp add: SetRecords_def setRecords_def)
  show "DeleteRecords e zone records w = (Inl (DeleteRecordsFailed zone (GetZoneFailed zone err)), w1)"
    using i z r g by (simp add: DeleteRecords_def deleteRecords_def)
  show "writes w1 = writes w"
    using getZone_fails [OF g] by (simp add: writes_def)
  show "zones (prov w1) = zones (prov w)"
    using getZone_fails [OF g] ensureInitialized_zones [of "prov w"] i by simp
next
  show "cacheKept e zone w (AppendRecords e zone records w)"
    by (rule public_cacheKept [where inner = addRecords and wrap = AddRecordsFailed and records = records])
       (rule addRecords_shape, rule AppendRecords_finish)
  show "cacheKept e zone w (SetRecords e zone records w)"
    by (rule public_cacheKept [where inner = setRecords and wrap = SetRecordsFailed and records = records])
       (rule setRecords_shape, rule SetRecords_finish)
  show "cacheKept e zone w (DeleteRecords e zone records w)"
    by (rule public_cacheKept [where inner = deleteRecords and wrap = DeleteRecordsFailed and records = records])
       (rule deleteRecords_shape, rule DeleteRecords_finish)
qed


theorem fetch_failure_aborts_and_cache_kept_witness:
  "AppendRecords (exampleEnv deadServer) ''example.com'' [TXT ''test'' (300 * Second) ''new'']
     (exampleWorld Map.empty) =
   (Inl (AddRecordsFailed ''example.com'' (GetZoneFailed ''example.com''
           (GetZoneFailed ''example.com'' (LibError ''request failed'')))),
    \<lparr>prov = exampleProvider Map.empty,
      sent = [Request ''GET'' ''https://api.autodns.com/v1/zone/example.com'' ''user'' ''secret''
                ''4'' None]\<rparr>) \<and>
   fst (SetRecords (exampleEnv (refusingServer (zoneWith []))) ''example.com''
          [TXT ''test'' (300 * Second) ''new'']
          (exampleWorld [''example.com'' \<mapsto> zoneWith [row ''TXT'' ''test'' ''old'']])) =
     Inl (SetRecordsFailed ''example.com'' (UpdateZoneFailed ''example.com'' (LibError ''HTTP 403''))) \<and>
   zones (prov (snd (SetRecords (exampleEnv (refusingServer (zoneWith []))) ''example.com''
          [TXT ''test'' (300 * Second) ''new'']
          (exampleWorld [''example.com'' \<mapsto> zoneWith [row ''TXT'' ''test'' ''old'']]))))
     ''example.com'' = Some (zoneWith [row ''TXT'' ''test'' ''old''])"
proof -
  let ?e = "exampleEnv deadServer"
  let ?w = "exampleWorld Map.empty"
  let ?recs = "[TXT ''test'' (300 * Second) ''new'']"
  let ?w1 = "\<lparr>prov = exampleProvider Map.empty,
      sent = [Request ''GET'' ''https://api.autodns.com/v1/zone/example.com'' ''user'' ''secret''
                ''4'' None]\<rparr>"
  have i: "ensureInitialized (prov ?w) = (None, exampleProvider Map.empty)"
    by (simp add: exampleWorld_def)
  have z: "''example.com'' \<noteq> []" by simp
  have r: "?recs \<noteq> []" by simp
  have g: "getZone ?e ''example.com'' (?w\<lparr>prov := exampleProvider Map.empty\<rparr>) =
           (Inl (GetZoneFailed ''example.com'' (LibError ''request failed'')), ?w1)"
    by (simp add: getZone_def exampleWorld_def exampleProvider_def exampleEnv_def deadServer_def
        mkRequest_def zoneURL_def)
  have a: "AppendRecords ?e ''example.com'' ?recs ?w =
        (Inl (AddRecordsFailed ''example.com'' (GetZoneFailed ''example.com''
           (GetZoneFailed ''example.com'' (LibError ''request failed'')))), ?w1)"
    using fetch_failure_aborts_and_cache_kept
            [of ?w "exampleProvider Map.empty" "''example.com''" ?recs ?e
                "GetZoneFailed ''example.com'' (LibError ''request failed'')" ?w1]
      i z r g by blast
  let ?e2 = "exampleEnv (refusingServer (zoneWith []))"
  let ?doc = "zoneWith [row ''TXT'' ''test'' ''old'']"
  let ?w2 = "exampleWorld [''example.com'' \<mapsto> ?doc]"
  let ?res = "SetRecords ?e2 ''example.com'' ?recs ?w2"
  have f: "fst ?res =
     Inl (SetRecordsFailed ''example.com'' (UpdateZoneFailed ''example.com'' (LibError ''HTTP 403'')))"
    by (simp add: SetRecords_def setRecords_def getZone_def setZone_def exampleWorld_def
        exampleProvider_def exampleEnv_def refusingServer_def mkRequest_def zoneURL_def
        ensureInitialized_def Let_def)
  have "cacheKept ?e2 ''example.com'' ?w2 ?res"
    using fetch_failure_aborts_and_cache_kept [of ?w2 _ "''example.com''" ?recs ?e2] by blast
  moreover have "zones (prov ?w2) ''example.com'' = Some ?doc"
    by (simp add: exampleWorld_def exampleProvider_def)
  ultimately have "zones (prov (snd ?res)) ''example.com'' = Some ?doc"
    using f unfolding cacheKept_def by (metis isl_def)
  with a f show ?thesis by blast
qed

section \<open>Validation\<close>

text \<open>
  Claim C9. With an empty zone name each of the four operations fails with a validation
  error, and with an empty record list each of \<open>AppendRecords\<close>, \<open>SetRecords\<close> and
  \<open>DeleteRecords\<close> does; in both cases no request is sent and the cache is not touched.
\<close>

theorem validation_fails_fast:
  "(zone = [] \<longrightarrow>
      failsFast ZoneNameRequired w (GetRecords e zone w) \<and>
      failsFast ZoneNameRequired w (AppendRecords e zone records w) \<and>
      failsFast ZoneNameRequired w (SetRecords e zone records w) \<and>
      failsFast ZoneNameRequired w (DeleteRecords e zone records w)) \<and>
   (zone \<noteq> [] \<longrightarrow> records = [] \<longrightarrow>
      failsFast RecordRequired w (AppendRecords e zone records w) \<and>
      failsFast RecordRequired w (SetRecords e zone records w) \<and>
      failsFast RecordRequired w (DeleteRecords e zone records w))"
proof (intro conjI impI)
  assume z: "zone = []"
  have v: "isValidationError ZoneNameRequired" by simp
  show "failsFast ZoneNameRequired w (GetRecords e zone w)"
    using failsFast_intro [OF v, of w] z
    by (simp add: GetRecords_def split: prod.splits option.splits)
  show "failsFast ZoneNameRequired w (AppendRecords e zone records w)"
    using failsFast_intro [OF v, of w] z
    by (simp add: AppendRecords_def split: prod.splits option.splits)
  show "failsFast ZoneNameRequired w (SetRecords e zone records w)"
    using failsFast_intro [OF v, of w] z
    by (simp add: SetRecords_def split: prod.splits option.splits)
  show "failsFast ZoneNameRequired w (DeleteRecords e zone records w)"
    using failsFast_intro [OF v, of w] z
    by (simp add: DeleteRecords_def split: prod.splits option.splits)
next
  assume z: "zone \<noteq> []" and r: "records = []"
  have v: "isValidationError RecordRequired" by simp
  show "failsFast RecordRequired w (AppendRecords e zone records w)"
    using failsFast_intro [OF v, of w] z r
    by (simp add: AppendRecords_def split: prod.splits option.splits)
  show "failsFast RecordRequired w (SetRecords e zone records w)"
    using failsFast_intro [OF v, of w] z r
    by (simp add: SetRecords_def split: prod.splits option.splits)
  show "failsFast RecordRequired w (DeleteRecords e zone records w)"
    using failsFast_intro [OF v, of w] z r
    by (simp add: DeleteRecords_def split: prod.splits option.splits)
qed

theorem validation_fails_fast_witness:
  "GetRecords (exampleEnv deadServer) [] (exampleWorld Map.empty) =
     (Inl ZoneNameRequired, exampleWorld Map.empty) \<and>
   fst (DeleteRecords (exampleEnv deadServer) ''example.com'' [] (exampleWorld Map.empty)) =
     Inl RecordRequired \<and>
   sent (snd (DeleteRecords (exampleEnv deadServer) ''example.com'' [] (exampleWorld Map.empty))) = []"
proof -
  have "failsFast ZoneNameRequired (exampleWorld Map.empty)
          (GetRecords (exampleEnv deadServer) [] (exampleWorld Map.empty))"
    using validation_fails_fast [of "[]" "exampleWorld Map.empty" "exampleEnv deadServer" "[]"]
    by blast
  then have "fst (GetRecords (exampleEnv deadServer) [] (exampleWorld Map.empty)) = Inl ZoneNameRequired"
    by (simp add: failsFast_def exampleWorld_def)
  moreover have "snd (GetRecords (exampleEnv deadServer) [] (exampleWorld Map.empty)) = exampleWorld Map.empty"
    by (simp add: GetRecords_def exampleWorld_def)
  moreover have "failsFast RecordRequired (exampleWorld Map.empty)
          (DeleteRecords (exampleEnv deadServer) ''example.com'' [] (exampleWorld Map.empty))"
    using validation_fails_fast [of "''example.com''" "exampleWorld Map.empty" "exampleEnv deadServer" "[]"]
    by simp
  then have "fst (DeleteRecords (exampleEnv deadServer) ''example.com'' [] (exampleWorld Map.empty)) =
     Inl RecordRequired \<and>
     sent (snd (DeleteRecords (exampleEnv deadServer) ''example.com'' [] (exampleWorld Map.empty))) = []"
    by (simp add: failsFast_def exampleWorld_def)
  ultimately show ?thesis by (simp add: prod_eq_iff)
qed

section \<open>The records returned\<close>

text \<open>
  Claim C10. When \<open>AppendRecords\<close>, \<open>SetRecords\<close> or \<open>DeleteRecords\<close> succeeds, the
  records it returns are the caller's list as it was given; and each succeeds whenever
  its zone operation does.
\<close>

theorem mutations_echo_records:
  "(fst (AppendRecords e zone records w) = Inr rs \<longrightarrow> rs = records) \<and>
   (fst (SetRecords e zone records w) = Inr rs \<longrightarrow> rs = records) \<and>
   (fst (DeleteRecords e zone records w) = Inr rs \<longrightarrow> rs = records) \<and>
   (ensureInitialized (prov w) = (None, p1) \<longrightarrow> zone \<noteq> [] \<longrightarrow> records \<noteq> [] \<longrightarrow>
      (fst (addRecords e zone records (w\<lparr>prov := p1\<rparr>)) = None \<longrightarrow>
         fst (AppendRecords e zone records w) = Inr records) \<and>
      (fst (setRecords e zone records (w\<lparr>prov := p1\<rparr>)) = None \<longrightarrow>
         fst (SetRecords e zone records w) = Inr records) \<and>
      (fst (deleteRecords e zone records (w\<lparr>prov := p1\<rparr>)) = None \<longrightarrow>
         fst (DeleteRecords e zone records w) = Inr records))"
  by (auto simp: AppendRecords_def SetRecords_def DeleteRecords_def
      split: prod.splits option.splits if_splits)


theorem mutations_echo_records_witness:
  "fst (AppendRecords (exampleEnv (acceptingServer (zoneWith []))) ''example.com''
          [TXT ''www'' (300 * Second) ''b'', TXT ''test'' (300 * Second) ''a'']
          (exampleWorld [''example.com'' \<mapsto> zoneWith [row ''TXT'' ''test'' ''a'']])) =
     Inr [TXT ''www'' (300 * Second) ''b'', TXT ''test'' (300 * Second) ''a''] \<and>
   fst (SetRecords (exampleEnv (acceptingServer (zoneWith []))) ''example.com''
          [TXT ''www'' (300 * Second) ''b'', TXT ''test'' (300 * Second) ''a'']
          (exampleWorld [''example.com'' \<mapsto> zoneWith [row ''TXT'' ''test'' ''a'']])) =
     Inr [TXT ''www'' (300 * Second) ''b'', TXT ''test'' (300 * Second) ''a''] \<and>
   fst (DeleteRecords (exampleEnv (acceptingServer (zoneWith []))) ''example.com''
          [TXT ''www'' (300 * Second) ''b'', TXT ''test'' (300 * Second) ''a'']
          (exampleWorld [''example.com'' \<mapsto> zoneWith [row ''TXT'' ''test'' ''a'']])) =
     Inr [TXT ''www'' (300 * Second) ''b'', TXT ''test'' (300 * Second) ''a'']"
proof -
  let ?e = "exampleEnv (acceptingServer (zoneWith []))"
  let ?recs = "[TXT ''www'' (300 * Second) ''b'', TXT ''test'' (300 * Second) ''a'']"
  let ?c = "[''example.com'' \<mapsto> zoneWith [row ''TXT'' ''test'' ''a'']]"
  let ?w = "(exampleWorld ?c)\<lparr>prov := exampleProvider ?c\<rparr>"
  have i: "ensureInitialized (prov (exampleWorld ?c)) = (None, exampleProvider ?c)"
    by (simp add: exampleWorld_def)
  have z: "''example.com'' \<noteq> []" and r: "?recs \<noteq> []" by simp_all
  have a: "fst (addRecords ?e ''example.com'' ?recs ?w) = None"
    by (simp add: addRecords_def getZone_def setZone_def exampleWorld_def exampleProvider_def
        exampleEnv_def acceptingServer_def mkRequest_def zoneURL_def Let_def)
  have s: "fst (setRecords ?e ''example.com'' ?recs ?w) = None"
    by (simp add: setRecords_def getZone_def setZone_def exampleWorld_def exampleProvider_def
        exampleEnv_def acceptingServer_def mkRequest_def zoneURL_def Let_def)
  have d: "fst (deleteRecords ?e ''example.com'' ?recs ?w) = None"
    by (simp add: deleteRecords_def getZone_def setZone_def exampleWorld_def exampleProvider_def
        exampleEnv_def acceptingServer_def mkRequest_def zoneURL_def Let_def)
  show ?thesis
    using mutations_echo_records [of ?e "''example.com''" ?recs "exampleWorld ?c" _ "exampleProvider ?c"]
      i z r a s d
    by blast
qed

end
